theory Spec2Isabelle
  imports Main
begin

section \<open>Kudos views: a shallow embedding of \<^verbatim>\<open>app/kudos/views.py\<close>\<close>

text \<open>
  The views are Django request handlers over an ORM. A view becomes a function from the
  request and the database to an outcome (an exception that leaves the view, or the
  response it returns) and the database it leaves behind. A table is the list of its rows
  in the order a query without \<^verbatim>\<open>order_by\<close> yields them. Python exceptions are values of
  \<open>exc\<close>; a view whose exception nobody catches has the outcome \<open>Inl e\<close> (Django
  answers with an error page).
\<close>

subsection \<open>Exceptions\<close>

datatype exc =
    Http404
  | DoesNotExist
  | MultipleObjectsReturned
  | KeyError string
  | ValueError string
  | AttributeError string
  | TypeError string
  | OtherException string

text \<open>
  \<open>OtherException\<close> stands for the exceptions of the collaborators and of the database.
  \<^verbatim>\<open>str(e)\<close>: a \<^verbatim>\<open>KeyError\<close> prints the \<^verbatim>\<open>repr\<close> of the missing key.
\<close>

fun str_exc :: "exc \<Rightarrow> string" where
  "str_exc Http404 = []"
| "str_exc DoesNotExist = []"
| "str_exc MultipleObjectsReturned = []"
| "str_exc (KeyError k) = [CHR 0x27] @ k @ [CHR 0x27]"
| "str_exc (ValueError m) = m"
| "str_exc (AttributeError m) = m"
| "str_exc (TypeError m) = m"
| "str_exc (OtherException m) = m"

subsection \<open>Query sets\<close>

text \<open>
  \<^verbatim>\<open>Model.objects.get(...)\<close> returns the single row that satisfies the lookup and raises
  \<^verbatim>\<open>DoesNotExist\<close> or \<^verbatim>\<open>MultipleObjectsReturned\<close> otherwise;
  \<^verbatim>\<open>.first()\<close> is the first row of the query set or \<^verbatim>\<open>None\<close>.
\<close>

definition objects_get :: "('a \<Rightarrow> bool) \<Rightarrow> 'a list \<Rightarrow> exc + 'a" where
  "objects_get p rows =
     (case filter p rows of
        [] \<Rightarrow> Inl DoesNotExist
      | [r] \<Rightarrow> Inr r
      | _ # _ # _ \<Rightarrow> Inl MultipleObjectsReturned)"

definition first :: "'a list \<Rightarrow> 'a option" where
  "first rows = (case rows of [] \<Rightarrow> None | r # _ \<Rightarrow> Some r)"

text \<open>
  \<^verbatim>\<open>__iexact\<close> compares without regard to case. Strings of the model are strings of
  characters with code points below 256; folding maps the letters A to Z to a to z.
\<close>

definition lower_char :: "char \<Rightarrow> char" where
  "lower_char c =
     (case map_of (zip ''ABCDEFGHIJKLMNOPQRSTUVWXYZ'' ''abcdefghijklmnopqrstuvwxyz'') c of
        Some l \<Rightarrow> l
      | None \<Rightarrow> c)"

definition iexact :: "string \<Rightarrow> string \<Rightarrow> bool" where
  "iexact a b = (map lower_char a = map lower_char b)"

subsection \<open>Profiles\<close>

record profile =
  profile_pk :: int
  handle :: string
  created_on :: int
  preferred_payout_address :: string

text \<open>
  \<^verbatim>\<open>order_by('-created_on')\<close>: newest first; rows created at the same instant keep
  the order of the table.
\<close>

definition order_by_created_on_desc :: "profile list \<Rightarrow> profile list" where
  "order_by_created_on_desc rows = sort_key (\<lambda>p. - created_on p) rows"

text \<open>
  \<^verbatim>\<open>get_profile(handle)\<close>, lines 59 to 75: the two ORM exceptions are caught, any other
  exception would leave the function.
\<close>

definition get_profile :: "profile list \<Rightarrow> string \<Rightarrow> exc + profile option" where
  "get_profile profiles h =
     (case objects_get (\<lambda>p. iexact (handle p) h) profiles of
        Inr p \<Rightarrow> Inr (Some p)
      | Inl MultipleObjectsReturned \<Rightarrow>
          Inr (first (order_by_created_on_desc (filter (\<lambda>p. iexact (handle p) h) profiles)))
      | Inl DoesNotExist \<Rightarrow> Inr None
      | Inl e \<Rightarrow> Inl e)"

subsection \<open>Tokens\<close>

text \<open>
  A \<^verbatim>\<open>Token\<close> row with the columns the views read and the \<^verbatim>\<open>Contract\<close> row it
  points to. \<open>token_pk\<close> is the primary key (\<^verbatim>\<open>pk\<close>, \<^verbatim>\<open>id\<close>), \<open>token_id\<close> the
  id of the token on the contract, \<open>token_name\<close> the column \<^verbatim>\<open>name\<close>.
\<close>

record contract =
  contract_address :: string
  contract_network :: string
  is_latest :: bool

record token =
  token_pk :: int
  token_id :: int
  cloned_from_id :: int
  token_name :: string
  humanized_name :: string
  description :: string
  img_url :: string
  owner_address :: string
  num_clones_allowed :: int
  num_clones_in_wild :: int
  hidden :: bool
  contract :: contract

text \<open>
  The object the detail page shows: the token with the attribute
  \<^verbatim>\<open>num_gen0_clones_allowed\<close> that \<^verbatim>\<open>details\<close> adds to it.
\<close>

record kudos = token +
  num_gen0_clones_allowed :: int

subsection \<open>Kudos transfers\<close>

text \<open>
  The \<^verbatim>\<open>metadata\<close> column is a JSON object; a key it does not hold is \<open>None\<close>. A
  lookup \<^verbatim>\<open>metadata__k=v\<close> selects the rows whose object holds \<open>v\<close> under \<open>k\<close>.
\<close>

record metadata =
  address :: "string option"
  creation_time :: "int option"
  salt :: "string option"
  reference_hash_for_receipient :: "string option"
  reference_hash_for_funder :: "string option"

record kudos_transfer =
  kudos_transfer_pk :: int
  web3_type :: string
  emails :: "string list"
  kudos_token_cloned_from :: int
  amount :: int
  comments_public :: string
  ip :: string
  github_url :: string
  from_name :: string
  from_email :: string
  from_username :: string
  username :: string
  network :: string
  tokenAddress :: string
  from_address :: string
  is_for_bounty_fulfiller :: bool
  metadata :: metadata
  recipient_profile :: "int option"
  sender_profile :: "int option"
  txid :: string
  receive_txid :: string
  receive_address :: string
  received_on :: "int option"
  trust_url :: bool

subsection \<open>Coupons, redemptions, activities\<close>

record bulk_transfer_coupon =
  coupon_pk :: int
  secret :: string

record bulk_transfer_redemption =
  redeemed_by :: int
  coupon :: int

record activity =
  activity_type :: string
  activity_kudos_transfer :: int
  activity_profile :: "int option"
  activity_bounty :: "int option"
  activity_amount :: int
  activity_token_name :: string
  activity_value_in_eth :: string
  activity_value_in_usdt_now :: string
  activity_github_url :: string
  activity_to_username :: string
  activity_from_name :: string
  activity_received_on :: "int option"

subsection \<open>The database\<close>

record db =
  tokens :: "token list"
  profiles :: "profile list"
  transfers :: "kudos_transfer list"
  coupons :: "bulk_transfer_coupon list"
  redemptions :: "bulk_transfer_redemption list"
  activities :: "activity list"

text \<open>\<^verbatim>\<open>obj.save()\<close> of a loaded row writes the object over the row with its key.\<close>

definition save_kudos_transfer :: "kudos_transfer \<Rightarrow> db \<Rightarrow> db" where
  "save_kudos_transfer kt d =
     d\<lparr>transfers :=
         map (\<lambda>r. if kudos_transfer_pk r = kudos_transfer_pk kt then kt else r) (transfers d)\<rparr>"

definition save_profile :: "profile \<Rightarrow> db \<Rightarrow> db" where
  "save_profile p d =
     d\<lparr>profiles := map (\<lambda>r. if profile_pk r = profile_pk p then p else r) (profiles d)\<rparr>"

subsection \<open>JSON values\<close>

text \<open>
  What \<^verbatim>\<open>json.loads\<close> gives for the body of a request: \<^verbatim>\<open>None\<close>, a truth value, an
  integer, a string, a list, or a dictionary, which holds one pair for each of its keys.
  Numbers with a fraction are left out. \<open>truthy\<close> is the truth value Python gives a value
  in a condition, \<open>hashable\<close> whether it can be a member of a set.
\<close>

datatype json =
    JNull
  | JBool bool
  | JInt int
  | JStr string
  | JList "json list"
  | JDict "(string \<times> json) list"



text \<open>
  The keyword arguments of \<^verbatim>\<open>KudosTransfer.objects.create\<close> in \<^verbatim>\<open>send_3\<close>, lines 355
  to 374: values of the payload as they are, and what the view works out itself.
\<close>

record create_kwargs =
  kw_emails :: "json list"
  kw_kudos_token_cloned_from :: token
  kw_amount :: json
  kw_comments_public :: json
  kw_ip :: string
  kw_github_url :: json
  kw_from_name :: json
  kw_from_email :: json
  kw_from_username :: string
  kw_username :: json
  kw_network :: json
  kw_tokenAddress :: json
  kw_from_address :: json
  kw_is_for_bounty_fulfiller :: json
  kw_metadata :: json
  kw_recipient_profile :: "profile option"
  kw_sender_profile :: "profile option"

subsection \<open>Requests, responses and the environment\<close>

text \<open>
  What a view reads from \<^verbatim>\<open>request\<close>: \<open>user_is_authenticated\<close>, \<open>user_username\<close>
  (empty for the anonymous user) and \<open>user_profile\<close> stand for
  \<^verbatim>\<open>request.user.is_authenticated\<close>, \<^verbatim>\<open>request.user.username\<close> and
  \<^verbatim>\<open>request.user.profile\<close> (the key of the linked profile, \<open>None\<close> when there is none);
  \<open>get_ip\<close> is what \<^verbatim>\<open>get_ip(request)\<close> returns, \<open>GET\<close> the query parameters and
  \<open>get_full_path\<close> the result of \<^verbatim>\<open>request.get_full_path()\<close>.
\<close>

record request =
  user_is_authenticated :: bool
  user_username :: string
  user_profile :: "int option"
  get_ip :: string
  GET :: "string \<rightharpoonup> string"
  get_full_path :: string

text \<open>
  A response is a JSON document with its status, a rendered template with its context, or
  a redirect. \<^verbatim>\<open>django.contrib.messages\<close> queues messages for the page next to it.
\<close>

datatype 'c response =
    JsonResponse nat "(string \<times> string) list"
  | TemplateResponse string 'c
  | HttpResponseRedirect string

datatype message = Info string | Success string | Error string

text \<open>
  Modelled from the spec: \<^verbatim>\<open>maybe_market_kudos_to_email\<close> of
  \<^verbatim>\<open>dashboard.notifications\<close>, which \<^verbatim>\<open>send_4\<close> calls, is not among the sources. The
  specification describes the notification sink as fire-and-forget, its failures logged
  and swallowed; so the sink takes the transfer and returns a flag, whether the mail went
  out, and does not raise. \<^verbatim>\<open>send_4\<close> has no handler of its own around the call.
\<close>

type_synonym notification_sink = "kudos_transfer \<Rightarrow> bool"

text \<open>
  What the views import from other modules is a parameter of the model. Apart from the
  settings and the clock, each parameter returns a value or raises:
  \<^item> \<open>KUDOS_NETWORK\<close> is the setting of that name, \<open>now\<close> the value of \<^verbatim>\<open>timezone.now()\<close>;
  \<^item> \<open>get_emails_master\<close>, \<open>get_github_primary_email\<close>, \<open>is_address\<close>,
    \<open>to_normalized_address\<close> are the functions of these names, \<open>get_access_token p\<close> the
    method of the profile with key \<open>p\<close>;
  \<^item> \<open>get_web3 n\<close> is the exception that \<^verbatim>\<open>get_web3(n)\<close> raises, if it raises;
    \<open>toChecksumAddress\<close> is \<^verbatim>\<open>Web3.toChecksumAddress\<close>, which raises \<^verbatim>\<open>ValueError\<close> for
    a text that is not an address; \<open>getBalance n a\<close> is what the node of network \<open>n\<close>
    answers to \<^verbatim>\<open>eth.getBalance(a)\<close>;
  \<^item> \<open>kudos_transfer_row\<close> is the row that the model class \<^verbatim>\<open>KudosTransfer\<close> makes of the
    keyword arguments of \<^verbatim>\<open>create\<close> (the conversion of each value to its column, and the
    defaults of the other columns), or the exception of the conversion or of the insert;
  \<^item> \<open>profile_save_raises\<close> and \<open>kudos_transfer_save_raises\<close> give the exception with
    which the database refuses the \<^verbatim>\<open>save()\<close> of a row inside \<^verbatim>\<open>receive\<close>, if it does,
    and \<open>activity_create_raises\<close> the same for \<^verbatim>\<open>Activity.objects.create\<close>;
  \<^item> \<open>record_user_action\<close> is the write of \<^verbatim>\<open>dashboard.views.record_user_action\<close>;
  \<^item> \<open>token_values\<close> reads the properties \<^verbatim>\<open>tokenName\<close>, \<^verbatim>\<open>value_in_eth\<close> and
    \<^verbatim>\<open>value_in_usdt_now\<close> of a transfer, \<open>bounty\<close> its property \<^verbatim>\<open>bounty\<close>;
  \<^item> \<open>recommend_min_gas_price_to_confirm_in_time m\<close> is the exception that the function
    of this name raises for \<open>m\<close> minutes, if it raises; the price it returns is a float
    and not part of the model.
\<close>

record env =
  KUDOS_NETWORK :: string
  now :: int
  get_emails_master :: "string \<Rightarrow> exc + string list"
  get_github_primary_email :: "string \<Rightarrow> exc + string"
  get_access_token :: "int \<Rightarrow> exc + string"
  is_address :: "string \<Rightarrow> bool"
  to_normalized_address :: "string \<Rightarrow> string"
  get_web3 :: "string \<Rightarrow> exc option"
  toChecksumAddress :: "string \<Rightarrow> exc + string"
  getBalance :: "string \<Rightarrow> string \<Rightarrow> exc + nat"
  kudos_transfer_row :: "create_kwargs \<Rightarrow> exc + kudos_transfer"
  profile_save_raises :: "profile \<Rightarrow> exc option"
  kudos_transfer_save_raises :: "kudos_transfer \<Rightarrow> exc option"
  activity_create_raises :: "activity \<Rightarrow> exc option"
  record_user_action :: "string \<Rightarrow> string \<Rightarrow> kudos_transfer \<Rightarrow> db \<Rightarrow> exc + db"
  token_values :: "kudos_transfer \<Rightarrow> exc + string \<times> string \<times> string"
  bounty :: "kudos_transfer \<Rightarrow> exc + int"
  recommend_min_gas_price_to_confirm_in_time :: "nat \<Rightarrow> exc option"
  maybe_market_kudos_to_email :: notification_sink

subsection \<open>\<^verbatim>\<open>send_4\<close>: confirm the funding of a transfer\<close>

text \<open>
  The body of the request is a JSON object; the model takes the decoded object, with the
  keys the view reads. A key that is absent is \<open>None\<close>: \<^verbatim>\<open>params['k']\<close> raises
  \<^verbatim>\<open>KeyError\<close> then, \<^verbatim>\<open>params.get('k', d)\<close> gives \<open>d\<close>.
\<close>

record send_4_params =
  param_txid :: "string option"
  param_destinationAccount :: "string option"
  param_is_direct_to_recipient :: "bool option"
  param_creation_time :: "int option"
  param_salt :: "string option"

definition permission_denied :: "'c response" where
  "permission_denied =
     JsonResponse 401 [(''status'', ''error''), (''message'', ''Permission Denied'')]"

definition kudos_sent :: "'c response" where
  "kudos_sent = JsonResponse 200 [(''status'', ''OK''), (''message'', ''Kudos Sent'')]"

text \<open>
  Lines 381 to 424. The result is the outcome, the database after the request, and the
  calls made to the notification sink, each with the flag it returned.
\<close>

definition send_4 ::
  "env \<Rightarrow> request \<Rightarrow> send_4_params \<Rightarrow> db
     \<Rightarrow> (exc + unit response) \<times> db \<times> (kudos_transfer \<times> bool) list" where
  "send_4 e request params d =
     (let from_username' = user_username request in
      case param_txid params of
        None \<Rightarrow> (Inl (KeyError ''txid''), d, [])
      | Some txid' \<Rightarrow>
     (case param_destinationAccount params of
        None \<Rightarrow> (Inl (KeyError ''destinationAccount''), d, [])
      | Some destination_account \<Rightarrow>
     (let is_direct_to_recipient =
            (case param_is_direct_to_recipient params of None \<Rightarrow> False | Some b \<Rightarrow> b) in
      case param_creation_time params of
        None \<Rightarrow> (Inl (KeyError ''creation_time''), d, [])
      | Some creation_time' \<Rightarrow>
     (case param_salt params of
        None \<Rightarrow> (Inl (KeyError ''salt''), d, [])
      | Some salt' \<Rightarrow>
     (case objects_get
             (\<lambda>k. address (metadata k) = Some destination_account
                 \<and> creation_time (metadata k) = Some creation_time'
                 \<and> salt (metadata k) = Some salt')
             (transfers d) of
        Inl err \<Rightarrow> (Inl err, d, [])
      | Inr kudos_transfer \<Rightarrow>
          (let is_authenticated_via_login =
                 (from_username kudos_transfer \<noteq> []
                  \<and> from_username kudos_transfer = from_username');
               is_authenticated_for_this_via_ip = (ip kudos_transfer = get_ip request);
               is_authed = (is_authenticated_for_this_via_ip \<or> is_authenticated_via_login)
           in if \<not> is_authed then (Inr permission_denied, d, [])
              else
                (let kt1 = kudos_transfer\<lparr>txid := txid'\<rparr>;
                     kt2 = (if is_direct_to_recipient then kt1\<lparr>receive_txid := txid'\<rparr> else kt1);
                     d' = save_kudos_transfer kt2 d
                 in (Inr kudos_sent, d', [(kt2, maybe_market_kudos_to_email e kt2)]))))))))"

subsection \<open>\<^verbatim>\<open>send_3\<close>: create a transfer\<close>


text \<open>\<^verbatim>\<open>params[k]\<close>, and sequencing of steps that may raise.\<close>

definition subscript :: "string \<Rightarrow> 'a option \<Rightarrow> exc + 'a" where
  "subscript k v = (case v of None \<Rightarrow> Inl (KeyError k) | Some x \<Rightarrow> Inr x)"

definition and_then :: "exc + 'a \<Rightarrow> ('a \<Rightarrow> exc + 'b) \<Rightarrow> exc + 'b" where
  "and_then r f = (case r of Inl err \<Rightarrow> Inl err | Inr x \<Rightarrow> f x)"



text \<open>
  \<^verbatim>\<open>int(s)\<close> for a text, as the ORM applies it to the value of a lookup by key: white
  space around the numeral is dropped, a sign may come first, and the digits may be
  separated by single underscores.
\<close>

definition is_digit :: "char \<Rightarrow> bool" where
  "is_digit c = (c \<in> set ''0123456789'')"

definition is_space :: "char \<Rightarrow> bool" where
  "is_space c =
     (c \<in> set [CHR 0x09, CHR 0x0A, CHR 0x0B, CHR 0x0C, CHR 0x0D, CHR 0x1C, CHR 0x1D,
                CHR 0x1E, CHR 0x1F, CHR 0x20, CHR 0x85, CHR 0xA0])"

definition strip :: "string \<Rightarrow> string" where
  "strip s = rev (dropWhile is_space (rev (dropWhile is_space s)))"

fun digits_ok :: "string \<Rightarrow> bool" where
  "digits_ok [] = False"
| "digits_ok [c] = is_digit c"
| "digits_ok (c # u # cs) =
     (is_digit c \<and> (if u = CHR 0x5F then digits_ok cs else digits_ok (u # cs)))"

definition digit_value :: "char \<Rightarrow> int" where
  "digit_value c =
     (case map_of (zip ''0123456789'' [0, 1, 2, 3, 4, 5, 6, 7, 8, 9]) c of
        Some v \<Rightarrow> v
      | None \<Rightarrow> 0)"

definition int_of_decimal :: "string \<Rightarrow> int" where
  "int_of_decimal s = foldl (\<lambda>n c. 10 * n + digit_value c) 0 s"

definition invalid_literal :: "string \<Rightarrow> exc" where
  "invalid_literal s =
     ValueError (''invalid literal for int() with base 10: '' @ [CHR 0x27] @ s @ [CHR 0x27])"

definition python_int :: "string \<Rightarrow> exc + int" where
  "python_int s =
     (let t = strip s;
          negative = (case t of [] \<Rightarrow> False | c # _ \<Rightarrow> c = CHR 0x2D);
          numeral = (case t of [] \<Rightarrow> []
                     | c # cs \<Rightarrow> if c = CHR 0x2D \<or> c = CHR 0x2B then cs else t)
      in if digits_ok numeral
         then Inr ((if negative then - 1 else 1)
                   * int_of_decimal (filter (\<lambda>c. c \<noteq> CHR 0x5F) numeral))
         else Inl (invalid_literal s))"






subsection \<open>\<^verbatim>\<open>record_kudos_email_activity\<close>\<close>

text \<open>
  Lines 427 to 457. The dictionary of the activity is built first, from the transfer and
  its properties. The profile is looked up by the exact handle; no profile ends the
  function, several profiles fall back to the first one that matches without regard to
  case. A transfer without bounty is passed over; creating the \<^verbatim>\<open>Activity\<close> row is
  guarded by a handler of its own, which logs the exception.
\<close>

definition create_activity ::
  "env \<Rightarrow> string \<Rightarrow> kudos_transfer \<Rightarrow> string \<times> string \<times> string \<Rightarrow> profile option \<Rightarrow> db
     \<Rightarrow> exc + db" where
  "create_activity e event_name kt values p d =
     (case values of (token_name', value_in_eth', value_in_usdt_now') \<Rightarrow>
        and_then
          (case bounty e kt of
             Inr b \<Rightarrow> Inr (Some b)
           | Inl DoesNotExist \<Rightarrow> Inr None
           | Inl err \<Rightarrow> Inl err) (\<lambda>bounty'.
        (let kwargs =
               \<lparr>activity_type = event_name,
                activity_kudos_transfer = kudos_transfer_pk kt,
                activity_profile = map_option profile_pk p,
                activity_bounty = bounty',
                activity_amount = amount kt,
                activity_token_name = token_name',
                activity_value_in_eth = value_in_eth',
                activity_value_in_usdt_now = value_in_usdt_now',
                activity_github_url = github_url kt,
                activity_to_username = username kt,
                activity_from_name = from_name kt,
                activity_received_on = received_on kt\<rparr>
         in case activity_create_raises e kwargs of
              Some _ \<Rightarrow> Inr d
            | None \<Rightarrow> Inr (d\<lparr>activities := activities d @ [kwargs]\<rparr>))))"

definition record_kudos_email_activity ::
  "env \<Rightarrow> kudos_transfer \<Rightarrow> string \<Rightarrow> string \<Rightarrow> db \<Rightarrow> exc + db" where
  "record_kudos_email_activity e kt github_handle event_name d =
     and_then (token_values e kt) (\<lambda>values.
       (case objects_get (\<lambda>p. handle p = github_handle) (profiles d) of
          Inr p \<Rightarrow> create_activity e event_name kt values (Some p) d
        | Inl MultipleObjectsReturned \<Rightarrow>
            create_activity e event_name kt values
              (first (filter (\<lambda>p. iexact (handle p) github_handle) (profiles d))) d
        | Inl DoesNotExist \<Rightarrow> Inr d
        | Inl err \<Rightarrow> Inl err))"

subsection \<open>\<^verbatim>\<open>receive\<close>: claim a transfer\<close>

text \<open>The context of \<^verbatim>\<open>transaction/receive.html\<close>, without the gas price (a float).\<close>

record receive_context =
  ctx_issueURL :: "string option"
  ctx_class :: string
  ctx_title :: string
  ctx_kudos_transfer :: kudos_transfer
  ctx_key :: string
  ctx_is_authed :: bool
  ctx_disable_inputs :: bool

text \<open>\<^verbatim>\<open>s.replace('@', '')\<close> removes every at sign.\<close>

definition remove_at :: "string \<Rightarrow> string" where
  "remove_at s = filter (\<lambda>c. c \<noteq> CHR 0x40) s"

definition wrong_user_message :: "kudos_transfer \<Rightarrow> request \<Rightarrow> string" where
  "wrong_user_message kt request =
     ''This kudos is for '' @ username kt @ '' but you are logged in as ''
       @ user_username request @ ''.  Please logout and log back in as '' @ username kt @ ''.''"

definition still_mining_message :: "string \<Rightarrow> string" where
  "still_mining_message txid' =
     ''The <a href='' @ [CHR 0x22] @ ''https://etherscan.io/tx/'' @ txid' @ [CHR 0x22]
       @ ''>transaction</a> is still mining.  ''
       @ ''Please wait a moment before submitting the receive form.''"

text \<open>
  A \<^verbatim>\<open>save()\<close> inside \<^verbatim>\<open>receive\<close>: the row is written, unless the database refuses it.
\<close>

definition profile_save :: "env \<Rightarrow> profile \<Rightarrow> db \<Rightarrow> exc + db" where
  "profile_save e p d =
     (case profile_save_raises e p of Some err \<Rightarrow> Inl err | None \<Rightarrow> Inr (save_profile p d))"

definition kudos_transfer_save :: "env \<Rightarrow> kudos_transfer \<Rightarrow> db \<Rightarrow> exc + db" where
  "kudos_transfer_save e kt d =
     (case kudos_transfer_save_raises e kt of
        Some err \<Rightarrow> Inl err
      | None \<Rightarrow> Inr (save_kudos_transfer kt d))"

text \<open>
  The block under \<^verbatim>\<open>try\<close>, lines 500 to 514: the exception that ended it, if one did,
  the transfer object as the block left it, and the database as the block left it. An
  assignment to the object stays when a later statement raises, and so does a row that
  was saved before.
\<close>

definition claim_mutation ::
  "env \<Rightarrow> (string \<rightharpoonup> string) \<Rightarrow> kudos_transfer \<Rightarrow> db \<Rightarrow> exc option \<times> kudos_transfer \<times> db" where
  "claim_mutation e params kt d =
     (case params ''save_addr'' of
        None \<Rightarrow> (Some (KeyError ''save_addr''), kt, d)
      | Some save_addr \<Rightarrow>
          (case
             (if save_addr \<noteq> [] then
                (case get_profile (profiles d) (username kt) of
                   Inl err \<Rightarrow> Inl err
                 | Inr None \<Rightarrow> Inr d
                 | Inr (Some profile) \<Rightarrow>
                     (case params ''forwarding_address'' of
                        None \<Rightarrow> Inl (KeyError ''forwarding_address'')
                      | Some forwarding_address \<Rightarrow>
                          profile_save e
                            (profile\<lparr>preferred_payout_address := forwarding_address\<rparr>) d))
              else Inr d)
           of
             Inl err \<Rightarrow> (Some err, kt, d)
           | Inr d1 \<Rightarrow>
               (case params ''receive_txid'' of
                  None \<Rightarrow> (Some (KeyError ''receive_txid''), kt, d1)
                | Some receive_txid' \<Rightarrow>
                    (let kt1 = kt\<lparr>receive_txid := receive_txid'\<rparr> in
                     case params ''forwarding_address'' of
                       None \<Rightarrow> (Some (KeyError ''forwarding_address''), kt1, d1)
                     | Some forwarding_address \<Rightarrow>
                         (let kt2 = kt1\<lparr>receive_address := forwarding_address\<rparr>;
                              kt3 = kt2\<lparr>received_on := Some (now e)\<rparr>
                          in case kudos_transfer_save e kt3 d1 of
                               Inl err \<Rightarrow> (Some err, kt3, d1)
                             | Inr d2 \<Rightarrow>
                                 (case record_user_action e (from_username kt3)
                                         ''receive_kudos'' kt3 d2 of
                                    Inl err \<Rightarrow> (Some err, kt3, d2)
                                  | Inr d3 \<Rightarrow>
                                      (case record_kudos_email_activity e kt3 (username kt3)
                                              ''receive_kudos'' d3 of
                                         Inl err \<Rightarrow> (Some err, kt3, d3)
                                       | Inr d4 \<Rightarrow> (None, kt3, d4))))))))"

text \<open>
  Lines 475 and 476: the client of the transfer's network, the address under
  \<^verbatim>\<open>metadata['address']\<close>, its checksum form, the balance; each step may raise.
\<close>

definition not_mined_yet :: "env \<Rightarrow> kudos_transfer \<Rightarrow> exc + bool" where
  "not_mined_yet e kt =
     (case get_web3 e (network kt) of
        Some err \<Rightarrow> Inl err
      | None \<Rightarrow>
          and_then (subscript ''address'' (address (metadata kt))) (\<lambda>address'.
          and_then (toChecksumAddress e address') (\<lambda>checksum_address.
          and_then (getBalance e (network kt) checksum_address) (\<lambda>balance.
            Inr (balance = 0)))))"

text \<open>
  Lines 460 to 530. The record is looked up, the authorisation and the balance are worked
  out, and only then is a caller without a login or without a profile sent to the login
  page. A query parameter counts as supplied when it is present and not empty. The
  context is built after the guards, lines 519 to 528; the gas price in it is asked for
  there, outside the handler of the block.
\<close>

definition receive ::
  "env \<Rightarrow> request \<Rightarrow> string \<Rightarrow> string \<Rightarrow> string \<Rightarrow> db
     \<Rightarrow> (exc + message list \<times> receive_context response) \<times> db" where
  "receive e request key txid' network' d =
     (let these_kudos_emails =
            filter (\<lambda>k. web3_type k = ''v3'' \<and> txid k = txid' \<and> network k = network')
              (transfers d);
          kudos_emails =
            filter (\<lambda>k. reference_hash_for_receipient (metadata k) = Some key
                       \<or> reference_hash_for_funder (metadata k) = Some key)
              these_kudos_emails
      in case first kudos_emails of
           None \<Rightarrow> (Inl (AttributeError ''trust_url''), d)
         | Some kudos_transfer \<Rightarrow>
             (let is_authed =
                    (trust_url kudos_transfer
                     \<or> remove_at (user_username request)
                         \<in> set [remove_at (username kudos_transfer),
                                 remove_at (from_username kudos_transfer)])
              in case not_mined_yet e kudos_transfer of
                   Inl err \<Rightarrow> (Inl err, d)
                 | Inr not_mined_yet' \<Rightarrow>
                     (let supplied = (case GET request ''receive_txid'' of
                                        None \<Rightarrow> False | Some v \<Rightarrow> v \<noteq> [])
                      in if \<not> user_is_authenticated request
                            \<or> user_is_authenticated request \<and> user_profile request = None
                         then (Inr ([], HttpResponseRedirect
                                          (''/login/github?next='' @ get_full_path request)), d)
                         else
                           (let (msgs, kt', d') =
                                  (if receive_txid kudos_transfer \<noteq> [] then
                                     ([Info ''This kudos has been received''], kudos_transfer, d)
                                   else if \<not> is_authed then
                                     ([Error (wrong_user_message kudos_transfer request)],
                                      kudos_transfer, d)
                                   else if not_mined_yet' \<and> \<not> supplied then
                                     ([Info (still_mining_message txid')], kudos_transfer, d)
                                   else if supplied \<and> \<not> receive_txid kudos_transfer \<noteq> [] then
                                     (case claim_mutation e (GET request) kudos_transfer d of
                                        (None, kt1, d1) \<Rightarrow>
                                          ([Success ''This kudos has been received''], kt1, d1)
                                      | (Some err, kt1, d1) \<Rightarrow> ([Error (str_exc err)], kt1, d1))
                                   else ([], kudos_transfer, d))
                            in case recommend_min_gas_price_to_confirm_in_time e 120 of
                                 Some err \<Rightarrow> (Inl err, d')
                               | None \<Rightarrow>
                                   (Inr (msgs,
                                         TemplateResponse ''transaction/receive.html''
                                           \<lparr>ctx_issueURL = GET request ''source'',
                                            ctx_class = ''receive'',
                                            ctx_title = ''Receive Kudos'',
                                            ctx_kudos_transfer = kt',
                                            ctx_key = key,
                                            ctx_is_authed = is_authed,
                                            ctx_disable_inputs =
                                              (receive_txid kt' \<noteq> [] \<or> not_mined_yet'
                                               \<or> \<not> is_authed)\<rparr>),
                                    d')))))"

subsection \<open>\<^verbatim>\<open>receive_bulk\<close>: the coupon gate\<close>

text \<open>
  Lines 534 to 548. \<^verbatim>\<open>HttpResponseForbidden\<close> is a response class of \<^verbatim>\<open>django.http\<close>,
  not an exception: the statement \<^verbatim>\<open>raise HttpResponseForbidden\<close> raises
  \<^verbatim>\<open>TypeError\<close>. Reading \<^verbatim>\<open>request.user.profile\<close> of a user without profile raises.
\<close>

definition raise_non_exception :: exc where
  "raise_non_exception = TypeError ''exceptions must derive from BaseException''"

definition receive_bulk ::
  "request \<Rightarrow> string \<Rightarrow> db \<Rightarrow> (exc + bulk_transfer_coupon response) \<times> db" where
  "receive_bulk request secret' d =
     (let coupons' = filter (\<lambda>c. secret c = secret') (coupons d) in
      case first coupons' of
        None \<Rightarrow> (Inl Http404, d)
      | Some coupon' \<Rightarrow>
          (case user_profile request of
             None \<Rightarrow> (Inl (AttributeError ''profile''), d)
           | Some profile \<Rightarrow>
               (let redemptions' =
                      filter (\<lambda>r. redeemed_by r = profile \<and> coupon r = coupon_pk coupon')
                        (redemptions d)
                in if redemptions' \<noteq> [] then (Inl raise_non_exception, d)
                   else (Inr (TemplateResponse ''transaction/receive_bulk.html'' coupon'), d))))"

subsection \<open>\<^verbatim>\<open>details\<close>: the detail page of a token\<close>

text \<open>
  \<^verbatim>\<open>re.match(r'\d+', s)\<close> matches the longest run of digits at the start of \<open>s\<close>, which
  must not be empty; the result is the matched text, or \<^verbatim>\<open>None\<close>.
\<close>

definition re_match_digits :: "string \<Rightarrow> string option" where
  "re_match_digits s = (case takeWhile is_digit s of [] \<Rightarrow> None | c # cs \<Rightarrow> Some (c # cs))"

text \<open>What the sentence about the check says: the first character is a digit.\<close>

definition begins_with_digit :: "string \<Rightarrow> bool" where
  "begins_with_digit s = (case s of [] \<Rightarrow> False | c # _ \<Rightarrow> is_digit c)"

definition invalid_kudos_id :: "string \<Rightarrow> exc" where
  "invalid_kudos_id kudos_id =
     ValueError (''Invalid Kudos ID found.  ID is not a number:  '' @ kudos_id)"

text \<open>
  The number that a text of plain decimal digits denotes; \<open>python_int\<close> reads such a text
  as this number.
\<close>

definition to_python_pk :: "string \<Rightarrow> exc + int" where
  "to_python_pk s =
     (if s \<noteq> [] \<and> list_all is_digit s then Inr (int_of_decimal s)
      else Inl (ValueError (''invalid literal for int() with base 10: ''
                            @ [CHR 0x27] @ s @ [CHR 0x27])))"

definition get_object_or_404 :: "('a \<Rightarrow> bool) \<Rightarrow> 'a list \<Rightarrow> exc + 'a" where
  "get_object_or_404 p rows =
     (case objects_get p rows of
        Inl DoesNotExist \<Rightarrow> Inl Http404
      | Inl err \<Rightarrow> Inl err
      | Inr r \<Rightarrow> Inr r)"

record details_context =
  dctx_is_outside :: bool
  dctx_active :: string
  dctx_title :: string
  dctx_card_title :: string
  dctx_card_desc :: string
  dctx_avatar_url :: string
  dctx_kudos :: kudos
  dctx_related_profiles :: "profile list"

text \<open>
  Lines 173 to 228. A model instance is true in a condition, so the branch of line 212 is
  always taken and the entries it writes replace the ones of lines 205 to 209. The lookup
  of line 213 is by the id on the contract and the contract's address, and is not guarded.
\<close>

definition details :: "env \<Rightarrow> db \<Rightarrow> string \<Rightarrow> string \<Rightarrow> exc + details_context response" where
  "details e d kudos_id name' =
     (case re_match_digits kudos_id of
        None \<Rightarrow> Inl (invalid_kudos_id kudos_id)
      | Some _ \<Rightarrow>
          and_then (python_int kudos_id) (\<lambda>pk.
          and_then (get_object_or_404 (\<lambda>t. token_pk t = pk) (tokens d)) (\<lambda>kudos'.
            (let related_kudos =
                   filter (\<lambda>t. token_name t = token_name kudos' \<and> num_clones_allowed t = 0
                              \<and> contract_network (contract t) = KUDOS_NETWORK e)
                     (tokens d);
                 owner_addresses =
                   map (\<lambda>rk. if is_address e (owner_address rk)
                              then Some (to_normalized_address e (owner_address rk)) else None)
                     related_kudos;
                 related_profiles =
                   take 20 (filter (\<lambda>p. Some (preferred_payout_address p) \<in> set owner_addresses)
                              (profiles d))
             in and_then
                  (objects_get
                     (\<lambda>t. token_id t = cloned_from_id kudos'
                         \<and> contract_address (contract t) = contract_address (contract kudos'))
                     (tokens d))
                  (\<lambda>token'.
                     (let shown =
                            token.extend
                              (kudos'\<lparr>num_clones_in_wild := num_clones_in_wild token'\<rparr>)
                              (kudos.fields (num_clones_allowed token'))
                      in Inr (TemplateResponse ''kudos_details.html''
                                \<lparr>dctx_is_outside = True,
                                 dctx_active = ''details'',
                                 dctx_title = humanized_name shown,
                                 dctx_card_title = humanized_name shown,
                                 dctx_card_desc = description shown,
                                 dctx_avatar_url = img_url shown,
                                 dctx_kudos = shown,
                                 dctx_related_profiles = related_profiles\<rparr>)))))))"

section \<open>A small database for the examples\<close>

definition kudos_contract :: contract where
  "kudos_contract =
     \<lparr>contract_address = ''0xc0ffee'', contract_network = ''mainnet'', is_latest = True\<rparr>"

definition gen0_token :: token where
  "gen0_token =
     \<lparr>token_pk = 42, token_id = 42, cloned_from_id = 42, token_name = ''pythonista'',
      humanized_name = ''Pythonista'', description = ''For writers of Python'',
      img_url = ''/static/pythonista.svg'', owner_address = ''0x0wner'',
      num_clones_allowed = 5, num_clones_in_wild = 3, hidden = False,
      contract = kudos_contract\<rparr>"

definition clone_token :: token where
  "clone_token =
     gen0_token\<lparr>token_pk := 99, token_id := 99, owner_address := ''0xb0b'',
                num_clones_allowed := 0, num_clones_in_wild := 0\<rparr>"

definition alice :: profile where
  "alice =
     \<lparr>profile_pk = 1, handle = ''alice'', created_on = 10,
      preferred_payout_address = ''0xa11ce''\<rparr>"

definition bob :: profile where
  "bob = \<lparr>profile_pk = 2, handle = ''bob'', created_on = 20, preferred_payout_address = []\<rparr>"

definition bob_again :: profile where
  "bob_again =
     \<lparr>profile_pk = 3, handle = ''Bob'', created_on = 30, preferred_payout_address = ''0xb0b''\<rparr>"

definition example_metadata :: metadata where
  "example_metadata =
     \<lparr>address = Some ''0xabc'', creation_time = Some 100, salt = Some ''s1'',
      reference_hash_for_receipient = Some ''rkey'',
      reference_hash_for_funder = Some ''fkey''\<rparr>"

definition created_transfer :: kudos_transfer where
  "created_transfer =
     \<lparr>kudos_transfer_pk = 7, web3_type = ''v3'', emails = [''carol@example.org''],
      kudos_token_cloned_from = 42, amount = 1, comments_public = ''thanks'',
      ip = ''10.0.0.1'', github_url = [], from_name = ''Alice'',
      from_email = ''alice@example.org'', from_username = ''alice'', username = ''@carol'',
      network = ''mainnet'', tokenAddress = ''0x0'', from_address = ''0xa11ce'',
      is_for_bounty_fulfiller = False, metadata = example_metadata,
      recipient_profile = None, sender_profile = Some 1,
      txid = [], receive_txid = [], receive_address = [], received_on = None,
      trust_url = False\<rparr>"

text \<open>
  The transfers that the examples claim hold addresses of 40 hexadecimal digits, which
  \<^verbatim>\<open>Web3.toChecksumAddress\<close> accepts.
\<close>

definition funded_transfer :: kudos_transfer where
  "funded_transfer =
     created_transfer
       \<lparr>kudos_transfer_pk := 8, txid := ''0xfeed'',
        metadata := example_metadata
          \<lparr>address := Some ''0x0000000000000000000000000000000000000def'',
           salt := Some ''s2''\<rparr>\<rparr>"

definition claimed_transfer :: kudos_transfer where
  "claimed_transfer =
     created_transfer
       \<lparr>kudos_transfer_pk := 9, txid := ''0xc1a1'', receive_txid := ''0x4ece14ed'',
        receive_address := ''0xca401'', received_on := Some 900,
        metadata := example_metadata
          \<lparr>address := Some ''0x0000000000000000000000000000000000000123'',
           salt := Some ''s3''\<rparr>\<rparr>"

definition example_coupon :: bulk_transfer_coupon where
  "example_coupon = \<lparr>coupon_pk = 5, secret = ''s3cr3t''\<rparr>"

definition example_db :: db where
  "example_db =
     \<lparr>tokens = [gen0_token, clone_token],
      profiles = [alice, bob, bob_again],
      transfers = [created_transfer, funded_transfer, claimed_transfer],
      coupons = [example_coupon],
      redemptions = [\<lparr>redeemed_by = 1, coupon = 5\<rparr>],
      activities = []\<rparr>"

text \<open>
  The environment of the examples. Its \<open>toChecksumAddress\<close> accepts the texts made of 0x
  and 40 digits or small hexadecimal letters and raises for any other text; it returns
  the text as it is, without the capital letters of the checksum form, which the node of
  the example does not look at. Its \<open>kudos_transfer_row\<close> stores strings, numbers and
  truth values in columns of their own kind and refuses other values.
\<close>

definition example_to_checksum_address :: "string \<Rightarrow> exc + string" where
  "example_to_checksum_address a =
     (if take 2 a = ''0x'' \<and> length a = 42 \<and> list_all (\<lambda>c. c \<in> set ''0123456789abcdef'') (drop 2 a)
      then Inr a
      else Inl (ValueError ''Unknown format''))"

definition str_column :: "json \<Rightarrow> exc + string" where
  "str_column v =
     (case v of JStr s \<Rightarrow> Inr s | _ \<Rightarrow> Inl (OtherException ''ValidationError''))"

definition str_key :: "(string \<times> json) list \<Rightarrow> string \<Rightarrow> string option" where
  "str_key kvs k = (case map_of kvs k of Some (JStr s) \<Rightarrow> Some s | _ \<Rightarrow> None)"

definition metadata_column :: "json \<Rightarrow> exc + metadata" where
  "metadata_column v =
     (case v of
        JDict kvs \<Rightarrow>
          Inr \<lparr>address = str_key kvs ''address'',
               creation_time =
                 (case map_of kvs ''creation_time'' of Some (JInt n) \<Rightarrow> Some n | _ \<Rightarrow> None),
               salt = str_key kvs ''salt'',
               reference_hash_for_receipient = str_key kvs ''reference_hash_for_receipient'',
               reference_hash_for_funder = str_key kvs ''reference_hash_for_funder''\<rparr>
      | _ \<Rightarrow> Inl (OtherException ''ValidationError''))"

definition example_kudos_transfer_row :: "create_kwargs \<Rightarrow> exc + kudos_transfer" where
  "example_kudos_transfer_row kw =
     and_then (case kw_amount kw of JInt n \<Rightarrow> Inr n
               | _ \<Rightarrow> Inl (OtherException ''ValidationError'')) (\<lambda>amount'.
     and_then (str_column (kw_comments_public kw)) (\<lambda>comments_public'.
     and_then (str_column (kw_github_url kw)) (\<lambda>github_url'.
     and_then (str_column (kw_from_name kw)) (\<lambda>from_name'.
     and_then (str_column (kw_from_email kw)) (\<lambda>from_email'.
     and_then (str_column (kw_username kw)) (\<lambda>username'.
     and_then (str_column (kw_network kw)) (\<lambda>network'.
     and_then (str_column (kw_tokenAddress kw)) (\<lambda>tokenAddress'.
     and_then (str_column (kw_from_address kw)) (\<lambda>from_address'.
     and_then (case kw_is_for_bounty_fulfiller kw of JBool b \<Rightarrow> Inr b
               | _ \<Rightarrow> Inl (OtherException ''ValidationError'')) (\<lambda>is_for_bounty_fulfiller'.
     and_then (metadata_column (kw_metadata kw)) (\<lambda>metadata'.
       Inr \<lparr>kudos_transfer_pk = 0, web3_type = ''v3'',
            emails = concat (map (\<lambda>v. case v of JStr s \<Rightarrow> [s] | _ \<Rightarrow> []) (kw_emails kw)),
            kudos_token_cloned_from = token_pk (kw_kudos_token_cloned_from kw),
            amount = amount', comments_public = comments_public', ip = kw_ip kw,
            github_url = github_url', from_name = from_name', from_email = from_email',
            from_username = kw_from_username kw, username = username',
            network = network', tokenAddress = tokenAddress', from_address = from_address',
            is_for_bounty_fulfiller = is_for_bounty_fulfiller', metadata = metadata',
            recipient_profile = map_option profile_pk (kw_recipient_profile kw),
            sender_profile = map_option profile_pk (kw_sender_profile kw),
            txid = [], receive_txid = [], receive_address = [], received_on = None,
            trust_url = False\<rparr>)))))))))))"

definition example_env :: env where
  "example_env =
     \<lparr>KUDOS_NETWORK = ''mainnet'', now = 1000,
      get_emails_master = (\<lambda>u. Inr []),
      get_github_primary_email = (\<lambda>t. Inr ''alice@example.org''),
      get_access_token = (\<lambda>p. Inr ''token-of-alice''),
      is_address = (\<lambda>a. True), to_normalized_address = (\<lambda>a. a),
      get_web3 = (\<lambda>n. None),
      toChecksumAddress = example_to_checksum_address,
      getBalance = (\<lambda>n a. Inr 1),
      kudos_transfer_row = example_kudos_transfer_row,
      profile_save_raises = (\<lambda>p. None),
      kudos_transfer_save_raises = (\<lambda>kt. None),
      activity_create_raises = (\<lambda>a. None),
      record_user_action = (\<lambda>u ev kt d. Inr d),
      token_values = (\<lambda>kt. Inr (''pythonista'', ''0'', ''0'')),
      bounty = (\<lambda>kt. Inl DoesNotExist),
      recommend_min_gas_price_to_confirm_in_time = (\<lambda>m. None),
      maybe_market_kudos_to_email = (\<lambda>kt. False)\<rparr>"

text \<open>The same environment, with a \<^verbatim>\<open>record_user_action\<close> that fails.\<close>

definition failing_env :: env where
  "failing_env =
     example_env\<lparr>record_user_action :=
                   (\<lambda>u ev kt d. Inl (OtherException ''no user action''))\<rparr>"

definition anonymous_request :: request where
  "anonymous_request =
     \<lparr>user_is_authenticated = False, user_username = [], user_profile = None,
      get_ip = ''10.0.0.1'', GET = Map.empty, get_full_path = ''/kudos/''\<rparr>"

definition alice_request :: request where
  "alice_request =
     \<lparr>user_is_authenticated = True, user_username = ''alice'', user_profile = Some 1,
      get_ip = ''10.7.7.7'', GET = Map.empty, get_full_path = ''/kudos/''\<rparr>"

definition carol_request :: request where
  "carol_request =
     \<lparr>user_is_authenticated = True, user_username = ''carol'', user_profile = Some 4,
      get_ip = ''10.3.3.3'', GET = Map.empty, get_full_path = ''/kudos/''\<rparr>"

definition mallory_request :: request where
  "mallory_request =
     \<lparr>user_is_authenticated = True, user_username = ''mallory'', user_profile = Some 6,
      get_ip = ''10.9.9.9'', GET = Map.empty, get_full_path = ''/kudos/''\<rparr>"

definition confirm_params :: send_4_params where
  "confirm_params =
     \<lparr>param_txid = Some ''0xdeadbeef'', param_destinationAccount = Some ''0xabc'',
      param_is_direct_to_recipient = None, param_creation_time = Some 100,
      param_salt = Some ''s1''\<rparr>"

text \<open>The payload of a \<^verbatim>\<open>send_3\<close> request, but for its \<^verbatim>\<open>kudosId\<close>.\<close>

definition create_fields :: "(string \<times> json) list" where
  "create_fields =
     [(''username'', JStr ''@carol''), (''email'', JStr ''carol@example.org''),
      (''amount'', JInt 1), (''comments_public'', JStr ''thanks''),
      (''github_url'', JStr []), (''from_name'', JStr ''Alice''),
      (''from_email'', JStr ''alice@example.org''), (''network'', JStr ''mainnet''),
      (''tokenAddress'', JStr ''0x0''), (''from_address'', JStr ''0xa11ce''),
      (''is_for_bounty_fulfiller'', JBool False),
      (''metadata'',
       JDict [(''address'', JStr ''0xabc''), (''creation_time'', JInt 100),
              (''salt'', JStr ''s1''), (''reference_hash_for_receipient'', JStr ''rkey''),
              (''reference_hash_for_funder'', JStr ''fkey'')])]"

definition create_payload :: "json \<Rightarrow> json option" where
  "create_payload kudos_id = Some (JDict ((''kudosId'', kudos_id) # create_fields))"

definition already_claimed_request :: request where
  "already_claimed_request =
     anonymous_request\<lparr>get_full_path := ''/kudos/receive/v3/rkey/0xc1a1/mainnet''\<rparr>"

definition claim_without_address_request :: request where
  "claim_without_address_request =
     carol_request\<lparr>GET := [''receive_txid'' \<mapsto> ''0xr'', ''save_addr'' \<mapsto> []]\<rparr>"

definition full_claim_request :: request where
  "full_claim_request =
     carol_request\<lparr>GET := [''receive_txid'' \<mapsto> ''0xr'', ''save_addr'' \<mapsto> [],
                           ''forwarding_address'' \<mapsto> ''0xca401'']\<rparr>"

section \<open>Properties\<close>

subsection \<open>Query sets and the example database\<close>

lemmas example_defs =
  kudos_contract_def gen0_token_def clone_token_def alice_def bob_def bob_again_def
  example_metadata_def created_transfer_def funded_transfer_def claimed_transfer_def
  example_coupon_def example_db_def example_env_def anonymous_request_def alice_request_def
  carol_request_def mallory_request_def confirm_params_def create_fields_def
  create_payload_def already_claimed_request_def claim_without_address_request_def
  full_claim_request_def failing_env_def

lemma objects_get_cases:
  "objects_get p rows = Inl DoesNotExist \<and> filter p rows = []
   \<or> (\<exists>r. objects_get p rows = Inr r \<and> filter p rows = [r])
   \<or> objects_get p rows = Inl MultipleObjectsReturned \<and> 2 \<le> length (filter p rows)"
  by (auto simp: objects_get_def split: list.splits)

lemma objects_get_member: "objects_get p rows = Inr r \<Longrightarrow> r \<in> set rows \<and> p r"
proof -
  assume "objects_get p rows = Inr r"
  then have "filter p rows = [r]"
    by (auto simp: objects_get_def split: list.splits)
  then have "r \<in> set (filter p rows)" by simp
  then show ?thesis by simp
qed


lemma first_sorted_desc:
  assumes "rows \<noteq> []"
  shows "\<exists>p. first (order_by_created_on_desc rows) = Some p \<and> p \<in> set rows
           \<and> (\<forall>q\<in>set rows. created_on q \<le> created_on p)"
proof -
  let ?s = "order_by_created_on_desc rows"
  have set_eq: "set ?s = set rows" by (simp add: order_by_created_on_desc_def)
  have srt: "sorted (map (\<lambda>p. - created_on p) ?s)" by (simp add: order_by_created_on_desc_def)
  from assms set_eq obtain p ps where s: "?s = p # ps" by (cases ?s) auto
  have "\<forall>q\<in>set rows. created_on q \<le> created_on p"
  proof
    fix q assume "q \<in> set rows"
    then have "q \<in> set (p # ps)" using set_eq s by simp
    then show "created_on q \<le> created_on p" using srt s by auto
  qed
  moreover have "p \<in> set rows" using set_eq s by (metis list.set_intros(1))
  ultimately show ?thesis using s by (simp add: first_def)
qed

lemma get_profile_returns: "\<exists>r. get_profile ps h = Inr r"
  using objects_get_cases [of "\<lambda>p. iexact (handle p) h" ps]
  by (auto simp: get_profile_def)

text \<open>
  Claim C8. \<^verbatim>\<open>get_profile\<close> returns for every handle and never raises. When no profile
  has the handle it returns \<^verbatim>\<open>None\<close>; when several profiles have it, compared without
  regard to case, it returns one of them that no other one is newer than.
\<close>

theorem get_profile_degrades_gracefully:
  "(\<exists>r. get_profile ps h = Inr r)
   \<and> (filter (\<lambda>p. iexact (handle p) h) ps = [] \<longrightarrow> get_profile ps h = Inr None)
   \<and> (2 \<le> length (filter (\<lambda>p. iexact (handle p) h) ps) \<longrightarrow>
        (\<exists>p. get_profile ps h = Inr (Some p) \<and> p \<in> set ps \<and> iexact (handle p) h
            \<and> (\<forall>q\<in>set ps. iexact (handle q) h \<longrightarrow> created_on q \<le> created_on p)))"
proof -
  let ?m = "filter (\<lambda>p. iexact (handle p) h) ps"
  consider (none) "objects_get (\<lambda>p. iexact (handle p) h) ps = Inl DoesNotExist" "?m = []"
    | (one) r where "objects_get (\<lambda>p. iexact (handle p) h) ps = Inr r" "?m = [r]"
    | (many) "objects_get (\<lambda>p. iexact (handle p) h) ps = Inl MultipleObjectsReturned" "2 \<le> length ?m"
    using objects_get_cases [of "\<lambda>p. iexact (handle p) h" ps] by blast
  then show ?thesis
  proof cases
    case none
    then show ?thesis by (simp add: get_profile_def)
  next
    case one
    then show ?thesis by (simp add: get_profile_def)
  next
    case many
    then have ne: "?m \<noteq> []" by auto
    from first_sorted_desc [OF ne] obtain p where
      p: "first (order_by_created_on_desc ?m) = Some p" "p \<in> set ?m"
         "\<forall>q\<in>set ?m. created_on q \<le> created_on p" by blast
    have "get_profile ps h = Inr (Some p)" using many(1) p(1) by (simp add: get_profile_def)
    moreover have "p \<in> set ps" "iexact (handle p) h" using p(2) by auto
    moreover have "\<forall>q\<in>set ps. iexact (handle q) h \<longrightarrow> created_on q \<le> created_on p"
      using p(3) by auto
    ultimately show ?thesis using many(2) by auto
  qed
qed

text \<open>
  On the example database the two profiles called bob and Bob answer to BOB, and the newer
  one is returned; nobody is called dave.
\<close>

theorem get_profile_degrades_gracefully_witness:
  "get_profile (profiles example_db) ''BOB'' = Inr (Some bob_again)
   \<and> get_profile (profiles example_db) ''dave'' = Inr None
   \<and> length (filter (\<lambda>p. iexact (handle p) ''BOB'') (profiles example_db)) = 2
   \<and> created_on bob \<le> created_on bob_again"
  using get_profile_degrades_gracefully [of "profiles example_db" "''BOB''"]
    get_profile_degrades_gracefully [of "profiles example_db" "''dave''"]
  by (simp add: example_defs get_profile_def objects_get_def iexact_def lower_char_def
      first_def order_by_created_on_desc_def)

text \<open>
  Claim C1. A \<^verbatim>\<open>send_4\<close> request whose metadata triple locates one transfer, sent from
  an address other than the stored one by a user whose name is not the stored sender's, is
  answered with status 401 and the message Permission Denied. The database is the one
  before the request, so the transfer keeps the \<open>txid\<close> it had, and the notification sink
  is not called.
\<close>

theorem send_4_permission_denied:
  assumes "param_txid params = Some t"
    and "param_destinationAccount params = Some a"
    and "param_creation_time params = Some c"
    and "param_salt params = Some s"
    and "objects_get (\<lambda>k. address (metadata k) = Some a \<and> creation_time (metadata k) = Some c
                          \<and> salt (metadata k) = Some s) (transfers d) = Inr kt"
    and "ip kt \<noteq> get_ip request"
    and "from_username kt \<noteq> user_username request"
  shows "send_4 e request params d = (Inr permission_denied, d, [])"
  using assms by (simp add: send_4_def)

text \<open>
  Mallory, from another address, tries to confirm the transfer Alice created; its \<open>txid\<close>
  is empty before and after.
\<close>

theorem send_4_permission_denied_witness:
  "send_4 example_env mallory_request confirm_params example_db
     = (Inr (JsonResponse 401 [(''status'', ''error''), (''message'', ''Permission Denied'')]),
        example_db, [])
   \<and> objects_get (\<lambda>k. address (metadata k) = Some ''0xabc'' \<and> creation_time (metadata k) = Some 100
                          \<and> salt (metadata k) = Some ''s1'') (transfers example_db)
       = Inr created_transfer
   \<and> txid created_transfer = []"
  using send_4_permission_denied [of confirm_params "''0xdeadbeef''" "''0xabc''" 100 "''s1''"
      example_db created_transfer mallory_request example_env]
  by (simp add: example_defs objects_get_def permission_denied_def)

lemma save_kudos_transfer_member:
  "kt \<in> set (transfers d) \<Longrightarrow> kudos_transfer_pk kt' = kudos_transfer_pk kt
     \<Longrightarrow> kt' \<in> set (transfers (save_kudos_transfer kt' d))"
  by (force simp: save_kudos_transfer_def)

text \<open>
  Claim C4. A \<^verbatim>\<open>send_4\<close> request whose metadata triple locates one transfer, and whose
  caller is authorised by address or by name, stores the supplied transaction id in
  \<open>txid\<close>, and in \<open>receive_txid\<close> as well when the request is flagged direct to recipient;
  the saved row is in the table afterwards. The sink is called once, with the saved
  object, and the answer is Kudos Sent with status 200 whatever flag the sink returns.
  The transfer may be in any state, the created state among them.
\<close>

theorem send_4_confirms_funding:
  assumes "param_txid params = Some t"
    and "param_destinationAccount params = Some a"
    and "param_creation_time params = Some c"
    and "param_salt params = Some s"
    and "objects_get (\<lambda>k. address (metadata k) = Some a \<and> creation_time (metadata k) = Some c
                          \<and> salt (metadata k) = Some s) (transfers d) = Inr kt"
    and "ip kt = get_ip request
         \<or> (from_username kt \<noteq> [] \<and> from_username kt = user_username request)"
  shows "let kt' = kt\<lparr>txid := t,
                      receive_txid := (if param_is_direct_to_recipient params = Some True then t
                                       else receive_txid kt)\<rparr>
         in send_4 e request params d
              = (Inr kudos_sent, save_kudos_transfer kt' d,
                 [(kt', maybe_market_kudos_to_email e kt')])
            \<and> kt' \<in> set (transfers (save_kudos_transfer kt' d))"
proof -
  define kt' where "kt' = kt\<lparr>txid := t,
                      receive_txid := (if param_is_direct_to_recipient params = Some True then t
                                       else receive_txid kt)\<rparr>"
  have mem: "kt \<in> set (transfers d)" using assms(5) objects_get_member by fast
  have pk: "kudos_transfer_pk kt' = kudos_transfer_pk kt" by (simp add: kt'_def)
  have run: "send_4 e request params d
           = (Inr kudos_sent, save_kudos_transfer kt' d, [(kt', maybe_market_kudos_to_email e kt')])"
    using assms by (cases "param_is_direct_to_recipient params") (auto simp: send_4_def Let_def kt'_def)
  show ?thesis unfolding Let_def kt'_def [symmetric]
    using run save_kudos_transfer_member [OF mem pk] by simp
qed

text \<open>
  The scenario of the specification: the transfer with the triple 0xabc, 100, s1 is
  confirmed from the address that created it, with transaction id 0xdeadbeef. The sink of
  the example reports that no mail went out; the answer is Kudos Sent all the same.
\<close>

theorem send_4_confirms_funding_witness:
  "send_4 example_env anonymous_request confirm_params example_db
     = (Inr (JsonResponse 200 [(''status'', ''OK''), (''message'', ''Kudos Sent'')]),
        example_db\<lparr>transfers :=
          [created_transfer\<lparr>txid := ''0xdeadbeef''\<rparr>, funded_transfer, claimed_transfer]\<rparr>,
        [(created_transfer\<lparr>txid := ''0xdeadbeef''\<rparr>, False)])
   \<and> send_4 example_env anonymous_request
        (confirm_params\<lparr>param_is_direct_to_recipient := Some True\<rparr>) example_db
     = (Inr (JsonResponse 200 [(''status'', ''OK''), (''message'', ''Kudos Sent'')]),
        example_db\<lparr>transfers :=
          [created_transfer\<lparr>txid := ''0xdeadbeef'', receive_txid := ''0xdeadbeef''\<rparr>,
           funded_transfer, claimed_transfer]\<rparr>,
        [(created_transfer\<lparr>txid := ''0xdeadbeef'', receive_txid := ''0xdeadbeef''\<rparr>, False)])"
  using send_4_confirms_funding [of confirm_params "''0xdeadbeef''" "''0xabc''" 100 "''s1''"
      example_db created_transfer anonymous_request example_env]
    send_4_confirms_funding [of "confirm_params\<lparr>param_is_direct_to_recipient := Some True\<rparr>"
      "''0xdeadbeef''" "''0xabc''" 100 "''s1''"
      example_db created_transfer anonymous_request example_env]
  by (simp add: example_defs objects_get_def kudos_sent_def save_kudos_transfer_def Let_def)


subsection \<open>Creating and claiming transfers, the coupon gate\<close>







text \<open>
  Claim C5. When the key of a \<^verbatim>\<open>receive\<close> request is neither the recipient's nor the
  funder's reference hash of any transfer with the given network and transaction id, no
  record resolves: \<^verbatim>\<open>first()\<close> gives \<^verbatim>\<open>None\<close>, reading its \<^verbatim>\<open>trust_url\<close> raises
  \<^verbatim>\<open>AttributeError\<close>, which nothing catches, so the caller gets the error page; the
  database is unchanged.
\<close>

theorem receive_no_record_error_page:
  assumes "\<forall>k\<in>set (transfers d). network k = network' \<and> txid k = txid' \<longrightarrow>
             reference_hash_for_receipient (metadata k) \<noteq> Some key
             \<and> reference_hash_for_funder (metadata k) \<noteq> Some key"
  shows "receive e request key txid' network' d = (Inl (AttributeError ''trust_url''), d)"
proof -
  have "filter (\<lambda>k. reference_hash_for_receipient (metadata k) = Some key
                       \<or> reference_hash_for_funder (metadata k) = Some key)
          (filter (\<lambda>k. web3_type k = ''v3'' \<and> txid k = txid' \<and> network k = network')
              (transfers d)) = []"
    using assms by (auto simp: filter_empty_conv)
  then show ?thesis by (simp add: receive_def first_def Let_def)
qed

text \<open>
  The funded transfer of the example has the hashes rkey and fkey; a request with another
  key finds nothing.
\<close>

theorem receive_no_record_error_page_witness:
  "receive example_env carol_request ''wrong-key'' ''0xfeed'' ''mainnet'' example_db
     = (Inl (AttributeError ''trust_url''), example_db)
   \<and> filter (\<lambda>k. network k = ''mainnet'' \<and> txid k = ''0xfeed'') (transfers example_db)
       = [funded_transfer]
   \<and> reference_hash_for_receipient (metadata funded_transfer) = Some ''rkey''
   \<and> reference_hash_for_funder (metadata funded_transfer) = Some ''fkey''"
  using receive_no_record_error_page [of example_db "''mainnet''" "''0xfeed''" "''wrong-key''"
      example_env carol_request]
  by (simp add: example_defs)

text \<open>
  Claim C7. The gate is to answer \<^verbatim>\<open>Http404\<close> for a secret without coupon, to reject with
  Forbidden a profile that has redeemed the coupon, and to show the coupon otherwise,
  writing nothing. The code does not reject with Forbidden: Alice (profile 1) has a
  redemption row for the coupon with the secret s3cr3t, and her request ends in
  \<^verbatim>\<open>TypeError\<close>, because line 543 raises a response class instead of returning a response.
\<close>

theorem receive_bulk_redeemed_raises_type_error:
  "receive_bulk alice_request ''s3cr3t'' example_db
     = (Inl (TypeError ''exceptions must derive from BaseException''), example_db)"
  by (simp add: receive_bulk_def first_def raise_non_exception_def example_defs)

text \<open>
  The other two parts of the sentence hold: the outcomes of \<^verbatim>\<open>receive_bulk\<close>, case by
  case, and that it writes nothing.
\<close>

lemma receive_bulk_cases:
  "receive_bulk request s d =
     (case filter (\<lambda>c. secret c = s) (coupons d) of
        [] \<Rightarrow> (Inl Http404, d)
      | c # _ \<Rightarrow>
          (case user_profile request of
             None \<Rightarrow> (Inl (AttributeError ''profile''), d)
           | Some p \<Rightarrow>
               if \<exists>r\<in>set (redemptions d). redeemed_by r = p \<and> coupon r = coupon_pk c
               then (Inl raise_non_exception, d)
               else (Inr (TemplateResponse ''transaction/receive_bulk.html'' c), d)))"
  by (auto simp: receive_bulk_def first_def Let_def filter_empty_conv split: list.splits option.splits)

lemma receive_bulk_read_only: "snd (receive_bulk request s d) = d"
  by (simp add: receive_bulk_cases split: list.splits option.splits)


subsection \<open>The detail page\<close>


lemma re_match_digits_iff: "re_match_digits s \<noteq> None \<longleftrightarrow> begins_with_digit s"
  by (cases s) (auto simp: re_match_digits_def begins_with_digit_def split: list.splits)

lemma to_python_pk_begins: "to_python_pk s = Inr pk \<Longrightarrow> begins_with_digit s"
  by (cases s) (auto simp: to_python_pk_def begins_with_digit_def split: if_splits)

lemma digit_is_plain:
  "is_digit c \<Longrightarrow> \<not> is_space c \<and> c \<noteq> CHR 0x2D \<and> c \<noteq> CHR 0x2B \<and> c \<noteq> CHR 0x5F"
  by (auto simp: is_digit_def is_space_def)

lemma strip_digits:
  assumes "s \<noteq> []" and "list_all is_digit s"
  shows "strip s = s"
proof -
  have front: "\<not> is_space (hd s)"
    using assms digit_is_plain by (cases s) auto
  have "last s \<in> set s" using assms(1) by simp
  then have "is_digit (last s)" using assms(2) by (simp add: list_all_iff)
  then have rear: "\<not> is_space (hd (rev s))"
    using assms(1) digit_is_plain by (simp add: hd_rev)
  have "dropWhile is_space s = s" using front assms(1) by (cases s) auto
  moreover have "dropWhile is_space (rev s) = rev s" using rear assms(1) by (cases "rev s") auto
  ultimately show ?thesis by (simp add: strip_def)
qed

lemma digits_ok_digits: "s \<noteq> [] \<Longrightarrow> list_all is_digit s \<Longrightarrow> digits_ok s"
  by (induction s rule: digits_ok.induct) (auto dest: digit_is_plain)

lemma filter_digits: "list_all is_digit s \<Longrightarrow> filter (\<lambda>c. c \<noteq> CHR 0x5F) s = s"
  by (induction s) (auto dest: digit_is_plain)

lemma to_python_pk_python_int:
  assumes "to_python_pk s = Inr pk"
  shows "python_int s = Inr pk"
proof -
  from assms have s: "s \<noteq> []" "list_all is_digit s" and pk: "pk = int_of_decimal s"
    by (auto simp: to_python_pk_def split: if_splits)
  obtain c cs where cons: "s = c # cs" using s(1) by (cases s) auto
  then have "is_digit c" using s(2) by simp
  then have plain: "c \<noteq> CHR 0x2D" "c \<noteq> CHR 0x2B" using digit_is_plain by auto
  have "strip s = c # cs" using strip_digits [OF s] cons by simp
  then show ?thesis
    using plain cons digits_ok_digits [OF s] filter_digits [OF s(2)] pk
    by (simp add: python_int_def Let_def)
qed

lemma python_int_not_invalid: "python_int s \<noteq> Inl (invalid_kudos_id s)"
  by (simp add: python_int_def invalid_literal_def invalid_kudos_id_def Let_def)

lemma get_object_or_404_not_value_error: "get_object_or_404 p rows \<noteq> Inl (ValueError m)"
  using objects_get_cases [of p rows] by (auto simp: get_object_or_404_def)

lemma objects_get_not_value_error: "objects_get p rows \<noteq> Inl (ValueError m)"
  using objects_get_cases [of p rows] by auto

text \<open>
  Claim C10. For a \<^verbatim>\<open>kudos_id\<close> that does not begin with a digit, \<^verbatim>\<open>details\<close> raises the
  \<^verbatim>\<open>ValueError\<close> of line 176 whatever the database holds: the check comes before the
  first query and the outcome does not depend on any table. A \<^verbatim>\<open>kudos_id\<close> whose first
  character is a digit passes the check, whatever follows the digit, and the view does not
  raise that error.
\<close>

theorem details_checks_first_character:
  "(\<not> begins_with_digit kudos_id \<longrightarrow>
      re_match_digits kudos_id = None
      \<and> (\<forall>d. details e d kudos_id name' = Inl (invalid_kudos_id kudos_id)))
   \<and> (begins_with_digit kudos_id \<longrightarrow>
      re_match_digits kudos_id \<noteq> None
      \<and> details e d kudos_id name' \<noteq> Inl (invalid_kudos_id kudos_id))"
proof (cases "begins_with_digit kudos_id")
  case False
  then have "re_match_digits kudos_id = None" using re_match_digits_iff by blast
  then show ?thesis using False by (simp add: details_def)
next
  case True
  then obtain m where m: "re_match_digits kudos_id = Some m"
    using re_match_digits_iff by blast
  have "details e d kudos_id name' \<noteq> Inl (invalid_kudos_id kudos_id)"
  proof (cases "python_int kudos_id")
    case (Inl err)
    then show ?thesis using m python_int_not_invalid [of kudos_id]
      by (simp add: details_def and_then_def)
  next
    case (Inr pk)
    show ?thesis
    proof (cases "get_object_or_404 (\<lambda>t. token_pk t = pk) (tokens d)")
      case (Inl err)
      then show ?thesis
        using m Inr get_object_or_404_not_value_error [of "\<lambda>t. token_pk t = pk" "tokens d"]
        by (auto simp: details_def and_then_def invalid_kudos_id_def)
    next
      case found: (Inr k)
      show ?thesis
      proof (cases "objects_get (\<lambda>t. token_id t = cloned_from_id k
                       \<and> contract_address (contract t) = contract_address (contract k)) (tokens d)")
        case (Inl err)
        then show ?thesis
          using m Inr found objects_get_not_value_error [of "\<lambda>t. token_id t = cloned_from_id k
                       \<and> contract_address (contract t) = contract_address (contract k)" "tokens d"]
          by (auto simp: details_def and_then_def invalid_kudos_id_def Let_def)
      next
        case gen0: (Inr g)
        then show ?thesis using m Inr found
          by (simp add: details_def and_then_def Let_def)
      qed
    qed
  qed
  then show ?thesis using True m by simp
qed

text \<open>
  The text x9 and the empty text are refused; 9x passes the check, which matches the 9.
\<close>

theorem details_checks_first_character_witness:
  "\<not> begins_with_digit ''x9''
   \<and> details example_env example_db ''x9'' ''pythonista''
       = Inl (ValueError ''Invalid Kudos ID found.  ID is not a number:  x9'')
   \<and> details example_env example_db [] ''pythonista''
       = Inl (ValueError ''Invalid Kudos ID found.  ID is not a number:  '')
   \<and> begins_with_digit ''9x''
   \<and> re_match_digits ''9x'' = Some ''9''
   \<and> details example_env example_db ''9x'' ''pythonista''
       \<noteq> Inl (ValueError ''Invalid Kudos ID found.  ID is not a number:  9x'')"
  using details_checks_first_character [of "''x9''" example_env "''pythonista''" example_db]
    details_checks_first_character [of "[]" example_env "''pythonista''" example_db]
    details_checks_first_character [of "''9x''" example_env "''pythonista''" example_db]
  by (simp add: begins_with_digit_def is_digit_def re_match_digits_def invalid_kudos_id_def)

text \<open>
  Claim C9. For a token with clone allowance 0 whose \<^verbatim>\<open>cloned_from_id\<close> and contract
  address resolve to one token, its Gen0 template, the detail page is rendered with a
  \<^verbatim>\<open>kudos\<close> object that is the requested token, with \<^verbatim>\<open>num_clones_in_wild\<close> taken from
  the template and \<^verbatim>\<open>num_gen0_clones_allowed\<close> equal to the template's
  \<^verbatim>\<open>num_clones_allowed\<close>.
\<close>

theorem details_shows_gen0_counts:
  assumes "to_python_pk kudos_id = Inr pk"
    and "objects_get (\<lambda>t. token_pk t = pk) (tokens d) = Inr clone"
    and "num_clones_allowed clone = 0"
    and "objects_get (\<lambda>t. token_id t = cloned_from_id clone
                          \<and> contract_address (contract t) = contract_address (contract clone))
           (tokens d) = Inr gen0"
  shows "\<exists>ctx. details e d kudos_id name' = Inr (TemplateResponse ''kudos_details.html'' ctx)
           \<and> token_pk (dctx_kudos ctx) = token_pk clone
           \<and> num_clones_in_wild (dctx_kudos ctx) = num_clones_in_wild gen0
           \<and> num_gen0_clones_allowed (dctx_kudos ctx) = num_clones_allowed gen0"
proof -
  from assms(1) obtain m where m: "re_match_digits kudos_id = Some m"
    using to_python_pk_begins re_match_digits_iff by blast
  have int: "python_int kudos_id = Inr pk"
    using assms(1) by (rule to_python_pk_python_int)
  have "get_object_or_404 (\<lambda>t. token_pk t = pk) (tokens d) = Inr clone"
    using assms(2) by (simp add: get_object_or_404_def)
  then show ?thesis using m int assms(4)
    by (simp add: details_def and_then_def Let_def token.defs kudos.defs)
qed

text \<open>
  The scenario of the specification: token 42 allows 5 clones, 3 of them exist; the page of
  its clone 99 shows 3 and 5, not the clone's own 0 and 0.
\<close>

theorem details_shows_gen0_counts_witness:
  "to_python_pk ''99'' = Inr 99
   \<and> objects_get (\<lambda>t. token_pk t = 99) (tokens example_db) = Inr clone_token
   \<and> num_clones_allowed clone_token = 0 \<and> num_clones_in_wild clone_token = 0
   \<and> num_clones_allowed gen0_token = 5 \<and> num_clones_in_wild gen0_token = 3
   \<and> (\<exists>ctx. details example_env example_db ''99'' ''pythonista''
               = Inr (TemplateResponse ''kudos_details.html'' ctx)
           \<and> token_pk (dctx_kudos ctx) = 99
           \<and> num_clones_in_wild (dctx_kudos ctx) = 3
           \<and> num_gen0_clones_allowed (dctx_kudos ctx) = 5)"
proof -
  have pk: "to_python_pk ''99'' = Inr 99"
    by (simp add: to_python_pk_def is_digit_def int_of_decimal_def digit_value_def)
  have clone: "objects_get (\<lambda>t. token_pk t = 99) (tokens example_db) = Inr clone_token"
    by (simp add: objects_get_def example_defs)
  have zero: "num_clones_allowed clone_token = 0" by (simp add: example_defs)
  have gen0: "objects_get (\<lambda>t. token_id t = cloned_from_id clone_token
                  \<and> contract_address (contract t) = contract_address (contract clone_token))
           (tokens example_db) = Inr gen0_token"
    by (simp add: objects_get_def example_defs)
  show ?thesis
    using details_shows_gen0_counts [OF pk clone zero gen0, of example_env "''pythonista''"]
      pk clone
    by (simp add: example_defs)
qed


subsection \<open>Claiming: the guards of \<^verbatim>\<open>receive\<close>\<close>

text \<open>
  What the block under \<^verbatim>\<open>try\<close> leaves behind, however it ends: the transfer object is
  the one it was given, or carries the supplied \<open>receive_txid\<close>; and when the parameter
  \<^verbatim>\<open>save_addr\<close> is missing, the block has changed neither the object nor the database.
\<close>

lemma claim_mutation_object:
  assumes "params ''receive_txid'' = Some rt"
    and "claim_mutation e params kt d = (outcome, kt', d')"
  shows "kt' = kt \<or> receive_txid kt' = rt"
  using assms
  by (auto simp: claim_mutation_def Let_def split: option.splits sum.splits if_splits)

lemma claim_mutation_without_save_addr:
  assumes "params ''save_addr'' = None"
    and "claim_mutation e params kt d = (outcome, kt', d')"
  shows "outcome = Some (KeyError ''save_addr'') \<and> kt' = kt \<and> d' = d"
  using assms by (simp add: claim_mutation_def)

text \<open>
  Claim C2, as it is stated, fails for a caller who is not logged in: the request for the
  claimed transfer of the example (key rkey, transaction 0xc1a1) is answered with the
  redirect to the login page of lines 478 to 482, and no message is queued.
\<close>

theorem receive_already_claimed_redirects_anonymous:
  "receive_txid claimed_transfer \<noteq> []
   \<and> receive example_env already_claimed_request ''rkey'' ''0xc1a1'' ''mainnet'' example_db
       = (Inr ([], HttpResponseRedirect
                     ''/login/github?next=/kudos/receive/v3/rkey/0xc1a1/mainnet''),
          example_db)"
  by (simp add: receive_def not_mined_yet_def subscript_def and_then_def
      example_to_checksum_address_def first_def Let_def example_defs)

text \<open>
  Claim C2, amended. A \<^verbatim>\<open>receive\<close> request that resolves to a transfer whose
  \<open>receive_txid\<close> is not empty changes no field of the record or of any profile: the
  database after the request is the database before it, whoever the caller is and however
  the request ends. The record is terminal: the next request with the same key resolves to
  the same record, with the same fields. When the reading of the balance and of the gas
  price return and the caller is logged in and has a profile, the page is rendered with the
  message that the kudos has been received, the transfer as stored, and the inputs
  disabled; a caller without login or profile is redirected to the login page instead,
  once the balance has been read.
\<close>

theorem receive_already_claimed_is_noop:
  assumes "first (filter (\<lambda>k. reference_hash_for_receipient (metadata k) = Some key
                              \<or> reference_hash_for_funder (metadata k) = Some key)
             (filter (\<lambda>k. web3_type k = ''v3'' \<and> txid k = txid' \<and> network k = network')
                (transfers d))) = Some kt"
    and "receive_txid kt \<noteq> []"
  shows "snd (receive e request key txid' network' d) = d
         \<and> first (filter (\<lambda>k. reference_hash_for_receipient (metadata k) = Some key
                              \<or> reference_hash_for_funder (metadata k) = Some key)
             (filter (\<lambda>k. web3_type k = ''v3'' \<and> txid k = txid' \<and> network k = network')
                (transfers (snd (receive e request key txid' network' d))))) = Some kt
         \<and> (not_mined_yet e kt = Inr mining
              \<and> recommend_min_gas_price_to_confirm_in_time e 120 = None
              \<and> user_is_authenticated request \<and> user_profile request \<noteq> None \<longrightarrow>
            fst (receive e request key txid' network' d)
              = Inr ([Info ''This kudos has been received''],
                     TemplateResponse ''transaction/receive.html''
                       \<lparr>ctx_issueURL = GET request ''source'',
                        ctx_class = ''receive'',
                        ctx_title = ''Receive Kudos'',
                        ctx_kudos_transfer = kt,
                        ctx_key = key,
                        ctx_is_authed =
                          (trust_url kt
                           \<or> remove_at (user_username request) = remove_at (username kt)
                           \<or> remove_at (user_username request) = remove_at (from_username kt)),
                        ctx_disable_inputs = True\<rparr>))
         \<and> (not_mined_yet e kt = Inr mining
              \<and> (\<not> user_is_authenticated request \<or> user_profile request = None) \<longrightarrow>
            fst (receive e request key txid' network' d)
              = Inr ([], HttpResponseRedirect (''/login/github?next='' @ get_full_path request)))"
proof -
  have same: "snd (receive e request key txid' network' d) = d"
    using assms by (auto simp: receive_def Let_def split: sum.splits option.splits)
  have page: "not_mined_yet e kt = Inr mining
              \<and> recommend_min_gas_price_to_confirm_in_time e 120 = None
              \<and> user_is_authenticated request \<and> user_profile request \<noteq> None \<longrightarrow>
            fst (receive e request key txid' network' d)
              = Inr ([Info ''This kudos has been received''],
                     TemplateResponse ''transaction/receive.html''
                       \<lparr>ctx_issueURL = GET request ''source'',
                        ctx_class = ''receive'',
                        ctx_title = ''Receive Kudos'',
                        ctx_kudos_transfer = kt,
                        ctx_key = key,
                        ctx_is_authed =
                          (trust_url kt
                           \<or> remove_at (user_username request) = remove_at (username kt)
                           \<or> remove_at (user_username request) = remove_at (from_username kt)),
                        ctx_disable_inputs = True\<rparr>)"
    using assms by (auto simp: receive_def Let_def)
  have redirect: "not_mined_yet e kt = Inr mining
              \<and> (\<not> user_is_authenticated request \<or> user_profile request = None) \<longrightarrow>
            fst (receive e request key txid' network' d)
              = Inr ([], HttpResponseRedirect (''/login/github?next='' @ get_full_path request))"
    using assms by (auto simp: receive_def Let_def)
  show ?thesis using same page redirect assms(1) by simp
qed

text \<open>
  Carol opens the page of the claimed transfer of the example, whose address is well
  formed and whose balance is 1.
\<close>

theorem receive_already_claimed_is_noop_witness:
  "receive example_env carol_request ''rkey'' ''0xc1a1'' ''mainnet'' example_db
     = (Inr ([Info ''This kudos has been received''],
             TemplateResponse ''transaction/receive.html''
               \<lparr>ctx_issueURL = None, ctx_class = ''receive'', ctx_title = ''Receive Kudos'',
                ctx_kudos_transfer = claimed_transfer, ctx_key = ''rkey'',
                ctx_is_authed = True, ctx_disable_inputs = True\<rparr>),
        example_db)
   \<and> receive_txid claimed_transfer = ''0x4ece14ed''
   \<and> not_mined_yet example_env claimed_transfer = Inr False"
proof -
  have found: "first (filter (\<lambda>k. reference_hash_for_receipient (metadata k) = Some ''rkey''
                       \<or> reference_hash_for_funder (metadata k) = Some ''rkey'')
        (filter (\<lambda>k. web3_type k = ''v3'' \<and> txid k = ''0xc1a1'' \<and> network k = ''mainnet'')
           (transfers example_db))) = Some claimed_transfer"
    by (simp add: first_def example_defs)
  have claimed: "receive_txid claimed_transfer \<noteq> []" by (simp add: example_defs)
  have mined: "not_mined_yet example_env claimed_transfer = Inr False"
    by (simp add: not_mined_yet_def subscript_def and_then_def
        example_to_checksum_address_def example_defs)
  show ?thesis
    using receive_already_claimed_is_noop
        [OF found claimed, of example_env carol_request False] mined
    by (simp add: prod_eq_iff example_defs remove_at_def)
qed

text \<open>
  Claim C6, as it is stated, fails in its last part. Carol claims the funded transfer of
  the example with \<^verbatim>\<open>receive_txid=0xr\<close>, an empty \<^verbatim>\<open>save_addr\<close> and no
  \<^verbatim>\<open>forwarding_address\<close>: line 508 assigns the transaction id to the object, line 509
  raises \<^verbatim>\<open>KeyError\<close>. The exception is caught and shown, the page is rendered, but with a
  transfer whose \<open>receive_txid\<close> is 0xr and with the inputs disabled, not in the state
  before the block.
\<close>

theorem receive_failed_claim_shows_assigned_txid:
  "receive_txid funded_transfer = []
   \<and> receive example_env claim_without_address_request ''rkey'' ''0xfeed'' ''mainnet'' example_db
       = (Inr ([Error ([CHR 0x27] @ ''forwarding_address'' @ [CHR 0x27])],
               TemplateResponse ''transaction/receive.html''
                 \<lparr>ctx_issueURL = None, ctx_class = ''receive'', ctx_title = ''Receive Kudos'',
                  ctx_kudos_transfer = funded_transfer\<lparr>receive_txid := ''0xr''\<rparr>,
                  ctx_key = ''rkey'', ctx_is_authed = True, ctx_disable_inputs = True\<rparr>),
          example_db)"
  by (simp add: receive_def claim_mutation_def not_mined_yet_def subscript_def and_then_def
      example_to_checksum_address_def first_def remove_at_def Let_def example_defs)

text \<open>
  Claim C6, amended. When a \<^verbatim>\<open>receive\<close> request reaches the block under \<^verbatim>\<open>try\<close> and
  the block raises, whatever the exception and whichever statement raises it, the
  exception does not leave the view: its text is queued as an error message and the page
  is rendered, provided the gas price of line 523 is read without an exception of its
  own. The page shows the transfer object as the block left it, which is the
  stored transfer or already carries the supplied \<open>receive_txid\<close>, and the database is
  as the block left it. Both are in the state before the block when the exception is the
  missing parameter \<^verbatim>\<open>save_addr\<close>.
\<close>

theorem receive_mutation_exception_is_rendered:
  assumes "first (filter (\<lambda>k. reference_hash_for_receipient (metadata k) = Some key
                              \<or> reference_hash_for_funder (metadata k) = Some key)
             (filter (\<lambda>k. web3_type k = ''v3'' \<and> txid k = txid' \<and> network k = network')
                (transfers d))) = Some kt"
    and "not_mined_yet e kt = Inr mining"
    and "recommend_min_gas_price_to_confirm_in_time e 120 = None"
    and "user_is_authenticated request"
    and "user_profile request \<noteq> None"
    and "receive_txid kt = []"
    and "trust_url kt
         \<or> remove_at (user_username request) = remove_at (username kt)
         \<or> remove_at (user_username request) = remove_at (from_username kt)"
    and "GET request ''receive_txid'' = Some rt"
    and "rt \<noteq> []"
    and "claim_mutation e (GET request) kt d = (Some err, kt', d')"
  shows "receive e request key txid' network' d
           = (Inr ([Error (str_exc err)],
                   TemplateResponse ''transaction/receive.html''
                     \<lparr>ctx_issueURL = GET request ''source'',
                      ctx_class = ''receive'',
                      ctx_title = ''Receive Kudos'',
                      ctx_kudos_transfer = kt',
                      ctx_key = key,
                      ctx_is_authed = True,
                      ctx_disable_inputs = (receive_txid kt' \<noteq> [] \<or> mining)\<rparr>),
              d')
         \<and> (kt' = kt \<or> receive_txid kt' = rt)
         \<and> (GET request ''save_addr'' = None \<longrightarrow> kt' = kt \<and> d' = d)"
proof -
  have rendered: "receive e request key txid' network' d
           = (Inr ([Error (str_exc err)],
                   TemplateResponse ''transaction/receive.html''
                     \<lparr>ctx_issueURL = GET request ''source'',
                      ctx_class = ''receive'',
                      ctx_title = ''Receive Kudos'',
                      ctx_kudos_transfer = kt',
                      ctx_key = key,
                      ctx_is_authed = True,
                      ctx_disable_inputs = (receive_txid kt' \<noteq> [] \<or> mining)\<rparr>),
              d')"
    using assms by (auto simp: receive_def Let_def)
  have object: "kt' = kt \<or> receive_txid kt' = rt"
    using claim_mutation_object [OF assms(8) assms(10)] .
  have early: "GET request ''save_addr'' = None \<longrightarrow> kt' = kt \<and> d' = d"
    using claim_mutation_without_save_addr [OF _ assms(10)] by simp
  show ?thesis using rendered object early by simp
qed

text \<open>
  Carol claims the funded transfer without the parameter \<^verbatim>\<open>save_addr\<close>: nothing has
  changed when the page is rendered. She claims it with all parameters in an environment
  whose \<^verbatim>\<open>record_user_action\<close> fails: the exception is shown on the page, the transfer
  has been saved before, and the page shows it as saved.
\<close>

theorem receive_mutation_exception_is_rendered_witness:
  "receive example_env (carol_request\<lparr>GET := [''receive_txid'' \<mapsto> ''0xr'']\<rparr>)
       ''rkey'' ''0xfeed'' ''mainnet'' example_db
     = (Inr ([Error ([CHR 0x27] @ ''save_addr'' @ [CHR 0x27])],
             TemplateResponse ''transaction/receive.html''
               \<lparr>ctx_issueURL = None, ctx_class = ''receive'', ctx_title = ''Receive Kudos'',
                ctx_kudos_transfer = funded_transfer, ctx_key = ''rkey'',
                ctx_is_authed = True, ctx_disable_inputs = False\<rparr>),
        example_db)
   \<and> receive failing_env full_claim_request ''rkey'' ''0xfeed'' ''mainnet'' example_db
     = (Inr ([Error ''no user action''],
             TemplateResponse ''transaction/receive.html''
               \<lparr>ctx_issueURL = None, ctx_class = ''receive'', ctx_title = ''Receive Kudos'',
                ctx_kudos_transfer =
                  funded_transfer\<lparr>receive_txid := ''0xr'', receive_address := ''0xca401'',
                                   received_on := Some 1000\<rparr>,
                ctx_key = ''rkey'', ctx_is_authed = True, ctx_disable_inputs = True\<rparr>),
        example_db\<lparr>transfers :=
          [created_transfer,
           funded_transfer\<lparr>receive_txid := ''0xr'', receive_address := ''0xca401'',
                            received_on := Some 1000\<rparr>,
           claimed_transfer]\<rparr>)"
proof -
  let ?request = "carol_request\<lparr>GET := [''receive_txid'' \<mapsto> ''0xr'']\<rparr>"
  let ?saved = "funded_transfer\<lparr>receive_txid := ''0xr'', receive_address := ''0xca401'',
                                 received_on := Some 1000\<rparr>"
  have found: "first (filter (\<lambda>k. reference_hash_for_receipient (metadata k) = Some ''rkey''
                       \<or> reference_hash_for_funder (metadata k) = Some ''rkey'')
        (filter (\<lambda>k. web3_type k = ''v3'' \<and> txid k = ''0xfeed'' \<and> network k = ''mainnet'')
           (transfers example_db))) = Some funded_transfer"
    by (simp add: first_def example_defs)
  have mined: "not_mined_yet example_env funded_transfer = Inr False"
    "not_mined_yet failing_env funded_transfer = Inr False"
    by (simp_all add: not_mined_yet_def subscript_def and_then_def
        example_to_checksum_address_def example_defs)
  have gas: "recommend_min_gas_price_to_confirm_in_time example_env 120 = None"
    "recommend_min_gas_price_to_confirm_in_time failing_env 120 = None"
    by (simp_all add: example_defs)
  have auth: "user_is_authenticated ?request" "user_profile ?request \<noteq> None"
    "user_is_authenticated full_claim_request" "user_profile full_claim_request \<noteq> None"
    by (simp_all add: example_defs)
  have fresh: "receive_txid funded_transfer = []" by (simp add: example_defs)
  have authed: "trust_url funded_transfer
         \<or> remove_at (user_username ?request) = remove_at (username funded_transfer)
         \<or> remove_at (user_username ?request) = remove_at (from_username funded_transfer)"
    "trust_url funded_transfer
         \<or> remove_at (user_username full_claim_request) = remove_at (username funded_transfer)
         \<or> remove_at (user_username full_claim_request)
             = remove_at (from_username funded_transfer)"
    by (simp_all add: example_defs remove_at_def)
  have supplied: "GET ?request ''receive_txid'' = Some ''0xr''"
    "GET full_claim_request ''receive_txid'' = Some ''0xr''" "''0xr'' \<noteq> []"
    by (simp_all add: example_defs)
  have raised_early: "claim_mutation example_env (GET ?request) funded_transfer example_db
                  = (Some (KeyError ''save_addr''), funded_transfer, example_db)"
    by (simp add: claim_mutation_def)
  have raised_late: "claim_mutation failing_env (GET full_claim_request) funded_transfer
                       example_db
                  = (Some (OtherException ''no user action''), ?saved,
                     example_db\<lparr>transfers := [created_transfer, ?saved, claimed_transfer]\<rparr>)"
    by (simp add: claim_mutation_def kudos_transfer_save_def save_kudos_transfer_def Let_def
        example_defs)
  show ?thesis
    using receive_mutation_exception_is_rendered
        [OF found mined(1) gas(1) auth(1,2) fresh authed(1) supplied(1,3) raised_early]
      receive_mutation_exception_is_rendered
        [OF found mined(2) gas(2) auth(3,4) fresh authed(2) supplied(2,3) raised_late]
    by (simp add: prod_eq_iff example_defs)
qed

end
